theory Spec2Isabelle
  imports Complex_Main "HOL-Library.Sublist"
begin

section \<open>Python values and strings\<close>

text \<open>
  A Python \<open>str\<close> is modelled as a \<open>string\<close>: a list of 8-bit characters, read as the
  code points U+0000 .. U+00FF.  The predicates below are Python's \<open>str.isspace\<close>, the
  line boundaries of \<open>str.splitlines\<close> and \<open>str.lower\<close>, restricted to that range.
\<close>

definition is_space :: "char \<Rightarrow> bool" where
  "is_space c = (let n = (of_char c :: nat) in
     (9 \<le> n \<and> n \<le> 13) \<or> (28 \<le> n \<and> n \<le> 32) \<or> n = 133 \<or> n = 160)"

definition is_linebreak :: "char \<Rightarrow> bool" where
  "is_linebreak c = (let n = (of_char c :: nat) in
     (10 \<le> n \<and> n \<le> 13) \<or> (28 \<le> n \<and> n \<le> 30) \<or> n = 133)"

definition lower_char :: "char \<Rightarrow> char" where
  "lower_char c = (let n = (of_char c :: nat) in
     if (65 \<le> n \<and> n \<le> 90) \<or> (192 \<le> n \<and> n \<le> 222 \<and> n \<noteq> 215)
     then char_of (n + 32) else c)"

definition lower :: "string \<Rightarrow> string" where
  "lower s = map lower_char s"

text \<open>\<open>s.strip()\<close>: whitespace removed from both ends.\<close>

definition strip :: "string \<Rightarrow> string" where
  "strip s = rev (dropWhile is_space (rev (dropWhile is_space s)))"

text \<open>
  \<open>s.splitlines()\<close>: \<open>break_line\<close> scans to the next line boundary and returns the line
  before it and the text after it; a carriage return directly followed by a line feed
  is one boundary.  A final line boundary opens no further line.
\<close>

fun break_line :: "string \<Rightarrow> string \<times> string" where
  "break_line [] = ([], [])"
| "break_line (c # cs) =
     (if is_linebreak c then
        (if c = CHR 0x0D \<and> cs \<noteq> [] \<and> hd cs = CHR 0x0A then ([], tl cs) else ([], cs))
      else (case break_line cs of (l, r) \<Rightarrow> (c # l, r)))"

lemma length_break_line: "length (snd (break_line s)) \<le> length s"
  by (induction s) (auto split: prod.splits)

function splitlines :: "string \<Rightarrow> string list" where
  "splitlines s = (if s = [] then [] else fst (break_line s) # splitlines (snd (break_line s)))"
  by pat_completeness auto
termination
proof (relation "measure length")
  show "wf (measure length)" by simp
next
  fix s :: string
  assume "s \<noteq> []"
  then obtain c cs where s: "s = c # cs" by (cases s) auto
  have "length (snd (break_line (c # cs))) < length (c # cs)"
    using length_break_line [of cs]
    by (cases cs) (auto split: prod.splits)
  then show "(snd (break_line s), s) \<in> measure length" by (simp add: s)
qed

declare splitlines.simps [simp del]

section \<open>Quality presets\<close>

text \<open>
  \<open>QUALITY_PRESETS\<close> (lines 35--51): a dictionary from preset name to a configuration.
  Every value has a \<open>"format"\<close> key; \<open>"merge_output_format"\<close> and \<open>"postprocessors"\<close>
  are present in some values only, hence optional fields.  A post-processor is itself a
  dictionary of strings, kept as an association list.
\<close>

record preset =
  format :: string
  merge_output_format :: "string option"
  postprocessors :: "(string \<times> string) list list option"

definition QUALITY_PRESETS :: "(string \<times> preset) list" where
  "QUALITY_PRESETS =
    [(''Best (Video + Audio)'',
        \<lparr>format = ''best'', merge_output_format = None, postprocessors = None\<rparr>),
     (''1080p (MP4)'',
        \<lparr>format = ''bestvideo[height<=1080]+bestaudio/best[height<=1080]/best'',
         merge_output_format = Some ''mp4'', postprocessors = None\<rparr>),
     (''720p (MP4)'',
        \<lparr>format = ''bestvideo[height<=720]+bestaudio/best[height<=720]/best'',
         merge_output_format = Some ''mp4'', postprocessors = None\<rparr>),
     (''Audio Only (MP3)'',
        \<lparr>format = ''bestaudio/best'', merge_output_format = None,
         postprocessors = Some [[(''key'', ''FFmpegExtractAudio''),
                                 (''preferredcodec'', ''mp3''),
                                 (''preferredquality'', ''192'')]]\<rparr>)]"

text \<open>Exceptions carry the text that \<open>str(exc)\<close> gives; the constructor is the class that
  the handlers of \<open>DownloadWorker.run\<close> tell apart: yt-dlp's \<open>DownloadError\<close>, or any
  other subclass of \<open>Exception\<close>.\<close>

datatype exc = DownloadError string | PyException string

text \<open>\<open>d[k]\<close> raises \<open>KeyError\<close> on a missing key; \<open>d.get(k, default)\<close> does not.\<close>

definition dict_getitem :: "(string \<times> 'v) list \<Rightarrow> string \<Rightarrow> exc + 'v" where
  "dict_getitem d k =
     (case map_of d k of None \<Rightarrow> Inl (PyException (CHR 0x27 # k @ [CHR 0x27])) | Some v \<Rightarrow> Inr v)"


section \<open>Dynamically typed values\<close>

text \<open>
  The values that the extraction library puts into the dictionaries it hands over.  A
  Python \<open>float\<close> is modelled by the rational number it denotes and float arithmetic by
  exact arithmetic; infinities and NaN are left out.
\<close>

datatype pyval = PyNone | PyBool bool | PyInt int | PyFloat rat | PyStr string

type_synonym pydict = "string \<rightharpoonup> pyval"

definition dict_get :: "pydict \<Rightarrow> string \<Rightarrow> pyval \<Rightarrow> pyval" where
  "dict_get d k dflt = (case d k of None \<Rightarrow> dflt | Some v \<Rightarrow> v)"

fun truthy :: "pyval \<Rightarrow> bool" where
  "truthy PyNone = False"
| "truthy (PyBool b) = b"
| "truthy (PyInt i) = (i \<noteq> 0)"
| "truthy (PyFloat r) = (r \<noteq> 0)"
| "truthy (PyStr s) = (s \<noteq> [])"

definition py_or :: "pyval \<Rightarrow> pyval \<Rightarrow> pyval" where
  "py_or a b = (if truthy a then a else b)"

fun num_of :: "pyval \<Rightarrow> rat option" where
  "num_of (PyBool b) = Some (if b then 1 else 0)"
| "num_of (PyInt i) = Some (of_int i)"
| "num_of (PyFloat r) = Some r"
| "num_of PyNone = None"
| "num_of (PyStr s) = None"

fun type_name :: "pyval \<Rightarrow> string" where
  "type_name PyNone = ''NoneType''"
| "type_name (PyBool b) = ''bool''"
| "type_name (PyInt i) = ''int''"
| "type_name (PyFloat r) = ''float''"
| "type_name (PyStr s) = ''str''"

text \<open>\<open>isinstance(v, (int, float))\<close> and \<open>isinstance(v, int)\<close>; \<open>bool\<close> is a subclass
  of \<open>int\<close>.\<close>

fun is_int_or_float :: "pyval \<Rightarrow> bool" where
  "is_int_or_float (PyBool b) = True"
| "is_int_or_float (PyInt i) = True"
| "is_int_or_float (PyFloat r) = True"
| "is_int_or_float v = False"

fun is_int :: "pyval \<Rightarrow> bool" where
  "is_int (PyBool b) = True"
| "is_int (PyInt i) = True"
| "is_int v = False"

text \<open>\<open>v > 0\<close> and \<open>a / b\<close> raise \<open>TypeError\<close> on operands that are not numbers.  The
  division is only ever reached with a positive divisor.\<close>

definition quoted :: "string \<Rightarrow> string" where
  "quoted s = CHR 0x27 # s @ [CHR 0x27]"

definition py_gt_zero :: "pyval \<Rightarrow> exc + bool" where
  "py_gt_zero v = (case num_of v of
       Some r \<Rightarrow> Inr (r > 0)
     | None \<Rightarrow> Inl (PyException (quoted ''>'' @ '' not supported between instances of ''
                 @ quoted (type_name v) @ '' and '' @ quoted ''int'')))"

definition py_truediv :: "pyval \<Rightarrow> pyval \<Rightarrow> exc + rat" where
  "py_truediv a b = (case (num_of a, num_of b) of
       (Some x, Some y) \<Rightarrow>
         (if y = 0 then Inl (PyException ''division by zero'') else Inr (x / y))
     | _ \<Rightarrow> Inl (PyException (''unsupported operand type(s) for /: ''
                 @ quoted (type_name a) @ '' and '' @ quoted (type_name b))))"

section \<open>Rendering numbers\<close>

text \<open>\<open>str(n)\<close> for an integer, and the format specifications \<open>:.1f\<close> and \<open>:.2f\<close>:
  the value rounded to \<open>p\<close> decimal places, ties to the even neighbour, written with
  exactly \<open>p\<close> digits after the decimal point.\<close>

definition digit_char :: "nat \<Rightarrow> char" where
  "digit_char d = char_of (48 + d)"

fun str_nat :: "nat \<Rightarrow> string" where
  "str_nat n = (if n < 10 then [digit_char n] else str_nat (n div 10) @ [digit_char (n mod 10)])"

declare str_nat.simps [simp del]

definition str_int :: "int \<Rightarrow> string" where
  "str_int i = (if i < 0 then CHR ''-'' # str_nat (nat (- i)) else str_nat (nat i))"

definition round_half_even :: "rat \<Rightarrow> int" where
  "round_half_even x =
     (let f = \<lfloor>x\<rfloor>; d = x - of_int f
      in if d < 1 / 2 then f else if 1 / 2 < d then f + 1 else if even f then f else f + 1)"

definition zero_pad :: "nat \<Rightarrow> string \<Rightarrow> string" where
  "zero_pad p s = replicate (p - length s) CHR ''0'' @ s"

definition format_f :: "nat \<Rightarrow> rat \<Rightarrow> string" where
  "format_f p x =
     (let n = nat (round_half_even (\<bar>x\<bar> * 10 ^ p))
      in (if x < 0 then ''-'' else [])
         @ str_nat (n div 10 ^ p) @ ''.'' @ zero_pad p (str_nat (n mod 10 ^ p)))"

section \<open>The download worker\<close>

text \<open>\<open>DownloadWorker\<close> (lines 54--74) and the three signals it emits.\<close>

record download_worker =
  url :: string
  output_dir :: string
  cookie_file :: string
  quality_preset :: string
  cancelled :: bool

definition DownloadWorker :: "string \<Rightarrow> string \<Rightarrow> string \<Rightarrow> string \<Rightarrow> download_worker" where
  "DownloadWorker u out_dir cookies quality =
     \<lparr>url = u, output_dir = out_dir, cookie_file = cookies, quality_preset = quality,
      cancelled = False\<rparr>"

definition cancel :: "download_worker \<Rightarrow> download_worker" where
  "cancel w = w\<lparr>cancelled := True\<rparr>"

datatype signal = Progress rat string | Log string | Finished bool string

text \<open>\<open>_progress_hook\<close> (lines 76--96).  The result is the exception the hook raises, or
  the signals it emits.\<close>

definition speed_text :: "pyval \<Rightarrow> string" where
  "speed_text speed =
     (if is_int_or_float speed
      then (case num_of speed of
              Some r \<Rightarrow> format_f 2 (r / 1024 / 1024) @ '' MB/s''
            | None \<Rightarrow> ''N/A'')
      else ''N/A'')"

text \<open>\<open>f"{eta}s"\<close> renders an integer by \<open>str\<close>; a \<open>bool\<close> is rendered by its name.\<close>

definition eta_text :: "pyval \<Rightarrow> string" where
  "eta_text eta =
     (if is_int eta
      then (case eta of
              PyInt i \<Rightarrow> str_int i @ ''s''
            | PyBool b \<Rightarrow> (if b then ''True'' else ''False'') @ ''s''
            | _ \<Rightarrow> ''N/A'')
      else ''N/A'')"

definition hook_total :: "pydict \<Rightarrow> pyval" where
  "hook_total data =
     py_or (dict_get data ''total_bytes'' PyNone)
       (py_or (dict_get data ''total_bytes_estimate'' PyNone) (PyInt 0))"

definition progress_hook :: "download_worker \<Rightarrow> pydict \<Rightarrow> exc + signal list" where
  "progress_hook w data =
     (if cancelled w then Inl (DownloadError ''Download canceled by user.'')
      else
        let status = dict_get data ''status'' (PyStr [])
        in if status = PyStr ''downloading'' then
             (let downloaded = dict_get data ''downloaded_bytes'' (PyInt 0);
                  total = hook_total data
              in case py_gt_zero total of
                   Inl e \<Rightarrow> Inl e
                 | Inr False \<Rightarrow> Inr [Progress 0 ''Downloading...'']
                 | Inr True \<Rightarrow>
                     (case py_truediv downloaded total of
                        Inl e \<Rightarrow> Inl e
                      | Inr q \<Rightarrow>
                          let percent = q * 100;
                              speed = dict_get data ''speed'' PyNone;
                              eta = dict_get data ''eta'' PyNone
                          in Inr [Progress percent
                                   (format_f 1 percent @ ''% | '' @ speed_text speed
                                    @ '' | ETA: '' @ eta_text eta)]))
           else if status = PyStr ''finished'' then
             Inr [Progress 100 ''Download complete, processing file...'']
           else Inr [])"


text \<open>\<open>sanitize_filename\<close> (lines 31--32): every maximal run of the characters
  \<^verbatim>\<open>\ / : * ? " < > |\<close> becomes one underscore; the result is stripped, and
  \<open>"video"\<close> replaces an empty result.  \<open>re.sub\<close> raises \<open>TypeError\<close> on anything but a
  string.\<close>

definition is_forbidden :: "char \<Rightarrow> bool" where
  "is_forbidden c = (c \<in> set [CHR 0x5C, CHR ''/'', CHR '':'', CHR ''*'', CHR ''?'',
                               CHR 0x22, CHR ''<'', CHR ''>'', CHR ''|''])"

function re_sub_forbidden :: "string \<Rightarrow> string" where
  "re_sub_forbidden [] = []"
| "re_sub_forbidden (c # cs) =
     (if is_forbidden c then CHR ''_'' # re_sub_forbidden (dropWhile is_forbidden cs)
      else c # re_sub_forbidden cs)"
  by pat_completeness auto
termination
  by (relation "measure length") (auto simp: length_dropWhile_le less_Suc_eq_le)

definition sanitize_filename :: "pyval \<Rightarrow> exc + string" where
  "sanitize_filename name =
     (case name of
        PyStr s \<Rightarrow> (let t = strip (re_sub_forbidden s) in Inr (if t = [] then ''video'' else t))
      | _ \<Rightarrow> Inl (PyException (''expected string or bytes-like object, got ''
                    @ quoted (type_name name))))"

subsection \<open>The extraction library and the file system\<close>

text \<open>
  \<open>os.makedirs\<close>, \<open>Path.exists\<close> and yt-dlp's \<open>YoutubeDL\<close> are outside the repository.
  Their behaviour is a parameter of the model, and every theorem about \<open>run\<close> holds for
  all of them.  One use of a \<open>YoutubeDL\<close> object is described by what its constructor,
  \<open>extract_info\<close>, \<open>download\<close> and its context-manager exit do.  While \<open>download\<close> runs
  it calls the progress hook, and the window's thread may call \<open>cancel()\<close> in between:
  the script lists both in the order they happen.  An exception raised by the hook ends
  \<open>download\<close> and comes out of it.  A \<open>cancel()\<close> that arrives before \<open>download\<close> is a
  worker whose \<open>cancelled\<close> flag is already set, since nothing reads the flag earlier.
\<close>

datatype dl_event = HookCalled pydict | CancelCalled

record ydl_behaviour =
  init_raises :: "exc option"
  info_result :: "exc + pydict option"
  download_script :: "dl_event list"
  download_raises :: "exc option"
  close_raises :: "exc option"

text \<open>The options built in lines 102--123.  \<open>outtmpl\<close> is the output directory joined
  with the file name template; \<open>progress_hooks\<close> is the hook above.\<close>

record ydl_opts =
  outtmpl :: "string \<times> string"
  noplaylist :: bool
  restrictfilenames :: bool
  windowsfilenames :: bool
  quiet :: bool
  no_warnings :: bool
  opt_format :: string
  opt_merge_output_format :: "string option"
  opt_postprocessors :: "(string \<times> string) list list option"
  cookiefile :: "string option"

record environment =
  makedirs :: "string \<Rightarrow> exc option"
  path_exists :: "string \<Rightarrow> bool"
  YoutubeDL :: "ydl_opts \<Rightarrow> string \<Rightarrow> ydl_behaviour"

subsection \<open>\<open>run\<close> (lines 98--145)\<close>

text \<open>Lines 112--114: the preset of the worker's name, or the default preset.\<close>

definition resolve_preset :: "string \<Rightarrow> exc + preset" where
  "resolve_preset name =
     (case dict_getitem QUALITY_PRESETS ''Best (Video + Audio)'' of
        Inl e \<Rightarrow> Inl e
      | Inr dflt \<Rightarrow> Inr (case map_of QUALITY_PRESETS name of None \<Rightarrow> dflt | Some p \<Rightarrow> p))"

definition build_ydl_opts :: "download_worker \<Rightarrow> preset \<Rightarrow> bool \<Rightarrow> ydl_opts" where
  "build_ydl_opts w p use_cookies =
     \<lparr>outtmpl = (output_dir w, ''%(title)s.%(ext)s''),
      noplaylist = True, restrictfilenames = False, windowsfilenames = True,
      quiet = True, no_warnings = True,
      opt_format = format p,
      opt_merge_output_format = merge_output_format p,
      opt_postprocessors = postprocessors p,
      cookiefile = (if use_cookies then Some (cookie_file w) else None)\<rparr>"

text \<open>\<open>ydl.download\<close>: the script is played against the worker; the result is the
  signals emitted, the worker (its flag may have been set meanwhile) and the exception
  that comes out, if any.\<close>

fun play_script :: "download_worker \<Rightarrow> dl_event list \<Rightarrow> signal list \<times> download_worker \<times> exc option" where
  "play_script w [] = ([], w, None)"
| "play_script w (CancelCalled # es) = play_script (cancel w) es"
| "play_script w (HookCalled data # es) =
     (case progress_hook w data of
        Inl e \<Rightarrow> ([], w, Some e)
      | Inr sigs \<Rightarrow> (case play_script w es of (ss, w', r) \<Rightarrow> (sigs @ ss, w', r)))"

definition download :: "download_worker \<Rightarrow> ydl_behaviour \<Rightarrow> signal list \<times> download_worker \<times> exc option" where
  "download w ydl =
     (case play_script w (download_script ydl) of
        (ss, w', Some e) \<Rightarrow> (ss, w', Some e)
      | (ss, w', None) \<Rightarrow> (ss, w', download_raises ydl))"

text \<open>Lines 128--132, the body of the \<open>with\<close> statement.\<close>

definition with_body :: "download_worker \<Rightarrow> ydl_behaviour \<Rightarrow> signal list \<times> download_worker \<times> exc option" where
  "with_body w ydl =
     (case info_result ydl of
        Inl e \<Rightarrow> ([], w, Some e)
      | Inr None \<Rightarrow>
          ([], w, Some (PyException (quoted ''NoneType'' @ '' object has no attribute ''
                                      @ quoted ''get'')))
      | Inr (Some info) \<Rightarrow>
          (case sanitize_filename (dict_get info ''title'' (PyStr ''video'')) of
             Inl e \<Rightarrow> ([], w, Some e)
           | Inr title \<Rightarrow>
               (case download w ydl of
                  (ss, w', r) \<Rightarrow>
                    ([Log (''Title: '' @ title), Log ''Starting download...''] @ ss, w', r))))"

text \<open>Lines 127--132, the \<open>with\<close> statement: leaving it closes the \<open>YoutubeDL\<close>
  object, also when the body raised; an exception of the exit replaces the one of the
  body.\<close>

definition with_ydl :: "download_worker \<Rightarrow> ydl_behaviour \<Rightarrow> signal list \<times> download_worker \<times> exc option" where
  "with_ydl w ydl =
     (case init_raises ydl of
        Some e \<Rightarrow> ([], w, Some e)
      | None \<Rightarrow>
          (case with_body w ydl of
             (ss, w', r) \<Rightarrow>
               (ss, w', (case close_raises ydl of Some e \<Rightarrow> Some e | None \<Rightarrow> r))))"

text \<open>Lines 134--138, reached when nothing was raised.\<close>

definition after_with :: "signal list \<Rightarrow> download_worker \<Rightarrow> signal list \<times> download_worker \<times> exc option" where
  "after_with ss w =
     (if cancelled w then (ss @ [Finished False ''Download canceled.''], w, None)
      else (ss @ [Finished True ''Download completed successfully.''], w, None))"

text \<open>Lines 121--126, the log lines before the library is entered.\<close>

definition setup_log :: "download_worker \<Rightarrow> bool \<Rightarrow> signal list" where
  "setup_log w use_cookies =
     [Log (''Quality: '' @ quality_preset w)]
     @ (if use_cookies then [Log ''Using cookies file for authenticated download.''] else [])
     @ [Log ''Fetching video info...'']"

definition use_cookies :: "download_worker \<Rightarrow> environment \<Rightarrow> bool" where
  "use_cookies w env = (cookie_file w \<noteq> [] \<and> path_exists env (cookie_file w))"

text \<open>Lines 100--132, the statements of the \<open>try\<close> block before a \<open>finished\<close> signal
  is emitted.\<close>

definition attempt :: "download_worker \<Rightarrow> environment \<Rightarrow> signal list \<times> download_worker \<times> exc option" where
  "attempt w env =
     (case makedirs env (output_dir w) of
        Some e \<Rightarrow> ([], w, Some e)
      | None \<Rightarrow>
          (case resolve_preset (quality_preset w) of
             Inl e \<Rightarrow> ([], w, Some e)
           | Inr p \<Rightarrow>
               (let c = use_cookies w env;
                    ydl = YoutubeDL env (build_ydl_opts w p c) (url w)
                in (case with_ydl w ydl of (ss, w', r) \<Rightarrow> (setup_log w c @ ss, w', r)))))"

text \<open>Lines 100--138, the whole \<open>try\<close> block.\<close>

definition try_body :: "download_worker \<Rightarrow> environment \<Rightarrow> signal list \<times> download_worker \<times> exc option" where
  "try_body w env =
     (case attempt w env of
        (ss, w', Some e) \<Rightarrow> (ss, w', Some e)
      | (ss, w', None) \<Rightarrow> after_with ss w')"

text \<open>The whole of \<open>run\<close>: the handlers of lines 139--145 around the body.  The third
  component is the exception that leaves \<open>run\<close>.\<close>

definition run :: "download_worker \<Rightarrow> environment \<Rightarrow> signal list \<times> download_worker \<times> exc option" where
  "run w env =
     (case try_body w env of
        (ss, w', None) \<Rightarrow> (ss, w', None)
      | (ss, w', Some (DownloadError msg)) \<Rightarrow>
          (if cancelled w'
           then (ss @ [Finished False ''Download canceled.''], w', None)
           else (ss @ [Finished False (''Download failed: '' @ msg)], w', None))
      | (ss, w', Some (PyException msg)) \<Rightarrow>
          (ss @ [Finished False (''Error: '' @ msg)], w', None))"


section \<open>The main window: the queue controller\<close>

text \<open>
  The queue is the \<open>QTableWidget\<close> of the window.  A row has an item in the URL, quality,
  status and progress columns and a combo box as cell widget of the quality column; each
  of them may be missing, as in a row that \<open>insertRow\<close> has just made.  Of the window the
  model keeps what the queue logic reads and writes: the table, the worker (the thread
  lives exactly as long as it), the flags, the input fields, the progress bar, the status
  label, the log and the message boxes shown.  Enabling and disabling of widgets,
  tool tips, alignment and styling are left out.
\<close>

record queue_row =
  url_item :: "string option"
  quality_item :: "string option"
  quality_widget :: "string option"
  status_item :: "string option"
  progress_item :: "string option"

record main_window =
  queue_table :: "queue_row list"
  worker :: "download_worker option"
  current_row :: "nat option"
  queue_running :: bool
  stop_queue_requested :: bool
  url_input :: string
  quality_combo :: string
  output_input :: string
  cookies_input :: string
  progress_bar :: int
  status_label :: "string \<times> string"
  log_box :: "string list"
  message_boxes :: "(string \<times> string) list"

definition COL_URL :: nat where "COL_URL = 0"
definition COL_QUALITY :: nat where "COL_QUALITY = 1"
definition COL_STATUS :: nat where "COL_STATUS = 2"
definition COL_PROGRESS :: nat where "COL_PROGRESS = 3"

subsection \<open>The table widget\<close>

text \<open>\<open>item(row, column)\<close> is \<open>None\<close> outside the table; \<open>setItem\<close>, \<open>removeRow\<close> and
  \<open>insertRow\<close> do nothing there.\<close>

definition empty_row :: queue_row where
  "empty_row = \<lparr>url_item = None, quality_item = None, quality_widget = None,
                 status_item = None, progress_item = None\<rparr>"

definition row_item :: "queue_row \<Rightarrow> nat \<Rightarrow> string option" where
  "row_item r column =
     (if column = COL_URL then url_item r
      else if column = COL_QUALITY then quality_item r
      else if column = COL_STATUS then status_item r
      else if column = COL_PROGRESS then progress_item r
      else None)"

definition item :: "queue_row list \<Rightarrow> nat \<Rightarrow> nat \<Rightarrow> string option" where
  "item t row column = (if row < length t then row_item (t ! row) column else None)"

definition cellWidget :: "queue_row list \<Rightarrow> nat \<Rightarrow> string option" where
  "cellWidget t row = (if row < length t then quality_widget (t ! row) else None)"

definition set_row_item :: "queue_row \<Rightarrow> nat \<Rightarrow> string \<Rightarrow> queue_row" where
  "set_row_item r column text =
     (if column = COL_URL then r\<lparr>url_item := Some text\<rparr>
      else if column = COL_QUALITY then r\<lparr>quality_item := Some text\<rparr>
      else if column = COL_STATUS then r\<lparr>status_item := Some text\<rparr>
      else if column = COL_PROGRESS then r\<lparr>progress_item := Some text\<rparr>
      else r)"

definition setItem :: "queue_row list \<Rightarrow> nat \<Rightarrow> nat \<Rightarrow> string \<Rightarrow> queue_row list" where
  "setItem t row column text =
     (if row < length t then t[row := set_row_item (t ! row) column text] else t)"

definition setCellWidget :: "queue_row list \<Rightarrow> nat \<Rightarrow> string \<Rightarrow> queue_row list" where
  "setCellWidget t row combo =
     (if row < length t then t[row := (t ! row)\<lparr>quality_widget := Some combo\<rparr>] else t)"

definition insertRow :: "queue_row list \<Rightarrow> nat \<Rightarrow> queue_row list" where
  "insertRow t row = (if row \<le> length t then take row t @ empty_row # drop row t else t)"

definition removeRow :: "queue_row list \<Rightarrow> nat \<Rightarrow> queue_row list" where
  "removeRow t row = (if row < length t then take row t @ drop (Suc row) t else t)"

subsection \<open>Small helpers (lines 778--887)\<close>

definition set_status :: "main_window \<Rightarrow> string \<Rightarrow> string \<Rightarrow> main_window" where
  "set_status mw message state = mw\<lparr>status_label := (message, state)\<rparr>"

definition appendPlainText :: "main_window \<Rightarrow> string \<Rightarrow> main_window" where
  "appendPlainText mw line = mw\<lparr>log_box := log_box mw @ [line]\<rparr>"

definition show_message_box :: "main_window \<Rightarrow> string \<Rightarrow> string \<Rightarrow> main_window" where
  "show_message_box mw title text = mw\<lparr>message_boxes := message_boxes mw @ [(title, text)]\<rparr>"

definition set_row_text :: "main_window \<Rightarrow> nat \<Rightarrow> nat \<Rightarrow> string \<Rightarrow> main_window" where
  "set_row_text mw row column text =
     mw\<lparr>queue_table := setItem (queue_table mw) row column text\<rparr>"

definition set_row_status :: "main_window \<Rightarrow> nat \<Rightarrow> string \<Rightarrow> main_window" where
  "set_row_status mw row status = set_row_text mw row COL_STATUS status"

definition set_row_progress :: "main_window \<Rightarrow> nat \<Rightarrow> string \<Rightarrow> main_window" where
  "set_row_progress mw row text = set_row_text mw row COL_PROGRESS text"

definition preset_names :: "string list" where
  "preset_names = map fst QUALITY_PRESETS"

definition build_row_quality_combo :: "string \<Rightarrow> string" where
  "build_row_quality_combo quality =
     (if quality \<in> set preset_names then quality else ''Best (Video + Audio)'')"

definition append_queue_row :: "main_window \<Rightarrow> string \<Rightarrow> string \<Rightarrow> main_window" where
  "append_queue_row mw u quality =
     (let row = length (queue_table mw);
          mw1 = mw\<lparr>queue_table := insertRow (queue_table mw) row\<rparr>;
          mw2 = set_row_text mw1 row COL_URL u;
          mw3 = mw2\<lparr>queue_table :=
                  setCellWidget (queue_table mw2) row (build_row_quality_combo quality)\<rparr>;
          mw4 = set_row_text mw3 row COL_STATUS ''Queued''
      in set_row_text mw4 row COL_PROGRESS ''0%'')"

definition quality_for_row :: "main_window \<Rightarrow> nat \<Rightarrow> string" where
  "quality_for_row mw row =
     (case cellWidget (queue_table mw) row of
        Some text \<Rightarrow> text
      | None \<Rightarrow>
          (case item (queue_table mw) row COL_QUALITY of
             Some text \<Rightarrow> (if text \<in> set preset_names then text else ''Best (Video + Audio)'')
           | None \<Rightarrow> ''Best (Video + Audio)''))"

fun next_queued_from :: "nat \<Rightarrow> queue_row list \<Rightarrow> nat option" where
  "next_queued_from row [] = None"
| "next_queued_from row (r # rs) =
     (if status_item r = Some ''Queued'' then Some row else next_queued_from (Suc row) rs)"

definition next_queued_row :: "main_window \<Rightarrow> nat option" where
  "next_queued_row mw = next_queued_from 0 (queue_table mw)"

subsection \<open>\<open>enqueue_urls\<close> (lines 812--827)\<close>

definition enqueue_urls :: "main_window \<Rightarrow> main_window" where
  "enqueue_urls mw =
     (let raw_text = strip (url_input mw)
      in if raw_text = [] then
           show_message_box mw ''Missing URL'' ''Please enter at least one video URL.''
         else
           (let quality = quality_combo mw;
                urls = map strip (filter (\<lambda>line. strip line \<noteq> []) (splitlines raw_text));
                mw1 = fold (\<lambda>u m. append_queue_row m u quality) urls mw;
                mw2 = mw1\<lparr>url_input := []\<rparr>;
                mw3 = appendPlainText mw2
                        (''Queued '' @ str_nat (length urls) @ '' item(s) with quality: ''
                         @ quality)
            in set_status mw3 (''Added '' @ str_nat (length urls) @ '' item(s) to queue.'')
                 ''idle''))"


subsection \<open>Running the queue (lines 889--1027)\<close>

definition finish_queue :: "main_window \<Rightarrow> string \<Rightarrow> string \<Rightarrow> main_window" where
  "finish_queue mw message state =
     (let mw1 = mw\<lparr>queue_running := False, stop_queue_requested := False,
                    current_row := None,
                    progress_bar := (if state = ''success'' then 100 else 0)\<rparr>
      in appendPlainText (set_status mw1 message state) message)"

definition queued_count :: "main_window \<Rightarrow> nat" where
  "queued_count mw = length (filter (\<lambda>r. status_item r = Some ''Queued'') (queue_table mw))"

definition mark_invalid :: "main_window \<Rightarrow> nat \<Rightarrow> main_window" where
  "mark_invalid mw next_row =
     appendPlainText
       (set_row_progress (set_row_status mw next_row ''Failed'') next_row ''0%'')
       (''[Item '' @ str_nat (next_row + 1) @ ''] Invalid queue entry.'')"

definition launch :: "main_window \<Rightarrow> nat \<Rightarrow> string \<Rightarrow> main_window" where
  "launch mw next_row u =
     (let output_dir = strip (output_input mw);
          cookie_file = strip (cookies_input mw);
          quality = quality_for_row mw next_row;
          mw1 = mw\<lparr>current_row := Some next_row\<rparr>;
          mw2 = set_row_progress (set_row_status mw1 next_row ''Downloading'') next_row ''0%'';
          mw3 = set_status (mw2\<lparr>progress_bar := 0\<rparr>)
                  (''Downloading item '' @ str_nat (next_row + 1) @ ''/''
                   @ str_nat (length (queue_table mw2)) @ '' ('' @ quality @ '')'')
                  ''active''
      in mw3\<lparr>worker := Some (DownloadWorker u output_dir cookie_file quality)\<rparr>)"

lemma next_queued_from_Some:
  "next_queued_from i t = Some row \<Longrightarrow>
     i \<le> row \<and> row - i < length t \<and> status_item (t ! (row - i)) = Some ''Queued''"
proof (induction t arbitrary: i)
  case Nil
  then show ?case by simp
next
  case (Cons r rs)
  show ?case
  proof (cases "status_item r = Some ''Queued''")
    case True
    with Cons.prems show ?thesis by simp
  next
    case False
    with Cons.prems have "next_queued_from (Suc i) rs = Some row" by simp
    from Cons.IH [OF this] show ?thesis
      by (auto simp: Suc_diff_Suc nth_Cons')
  qed
qed

lemma filter_update_less:
  assumes "i < length t" "P (t ! i)" "\<not> P x"
  shows "length (filter P (t[i := x])) < length (filter P t)"
proof -
  have t: "t = take i t @ (t ! i) # drop (Suc i) t"
    using assms(1) by (simp add: id_take_nth_drop)
  have "t[i := x] = take i t @ x # drop (Suc i) t"
    using assms(1) by (simp add: upd_conv_take_nth_drop)
  then have "length (filter P (t[i := x])) =
      length (filter P (take i t)) + length (filter P (drop (Suc i) t))"
    using assms(3) by simp
  moreover have "length (filter P t) =
      length (filter P (take i t)) + 1 + length (filter P (drop (Suc i) t))"
    using assms(2) by (subst t) simp
  ultimately show ?thesis by simp
qed

lemma mark_invalid_decreases:
  assumes "next_queued_row mw = Some next_row"
  shows "queued_count (mark_invalid mw next_row) < queued_count mw"
proof -
  from next_queued_from_Some [OF assms [unfolded next_queued_row_def]]
  have lt: "next_row < length (queue_table mw)"
    and q: "status_item (queue_table mw ! next_row) = Some ''Queued''" by simp_all
  have "queue_table (mark_invalid mw next_row) =
      (queue_table mw)[next_row :=
         (queue_table mw ! next_row)\<lparr>status_item := Some ''Failed'',
                                       progress_item := Some ''0%''\<rparr>]"
    using lt
    by (simp add: mark_invalid_def appendPlainText_def set_row_progress_def set_row_status_def
        set_row_text_def setItem_def set_row_item_def COL_URL_def COL_QUALITY_def
        COL_STATUS_def COL_PROGRESS_def)
  then show ?thesis
    unfolding queued_count_def
    using filter_update_less [of next_row "queue_table mw"
        "\<lambda>r. status_item r = Some ''Queued''"] lt q
    by simp
qed

text \<open>\<open>_start_next_item\<close> (lines 909--955) calls itself after it has marked a row
  without URL item as failed; each such call leaves one row less in status Queued.\<close>

function start_next_item :: "main_window \<Rightarrow> main_window" where
  "start_next_item mw =
     (if stop_queue_requested mw then finish_queue mw ''Queue stopped.'' ''warning''
      else
        (case next_queued_row mw of
           None \<Rightarrow> finish_queue mw ''Queue completed.'' ''success''
         | Some next_row \<Rightarrow>
             (case item (queue_table mw) next_row COL_URL of
                None \<Rightarrow> start_next_item (mark_invalid mw next_row)
              | Some u \<Rightarrow> launch mw next_row u)))"
  by pat_completeness auto
termination
  by (relation "measure queued_count") (auto simp: mark_invalid_decreases)

declare start_next_item.simps [simp del]

definition start_queue :: "main_window \<Rightarrow> main_window" where
  "start_queue mw =
     (if queue_running mw then mw
      else if strip (output_input mw) = [] then
        show_message_box mw ''Missing Folder'' ''Please select an output folder.''
      else if next_queued_row mw = None then
        show_message_box mw ''Queue Empty'' ''Add URLs to the queue first.''
      else
        start_next_item
          ((appendPlainText mw ''Starting queue...'')
             \<lparr>queue_running := True, stop_queue_requested := False, progress_bar := 0\<rparr>))"

definition cancel_download :: "main_window \<Rightarrow> main_window" where
  "cancel_download mw =
     (case worker mw of
        Some w \<Rightarrow>
          appendPlainText
            (set_status (mw\<lparr>stop_queue_requested := True, worker := Some (cancel w)\<rparr>)
               ''Cancelling current item...'' ''warning'')
            ''Cancel requested...''
      | None \<Rightarrow>
          (if queue_running mw
           then set_status (mw\<lparr>stop_queue_requested := True\<rparr>) ''Stopping queue...'' ''warning''
           else mw))"

text \<open>\<open>int(percent)\<close> truncates towards zero.\<close>

definition py_int :: "rat \<Rightarrow> int" where
  "py_int x = (if 0 \<le> x then \<lfloor>x\<rfloor> else \<lceil>x\<rceil>)"

definition on_progress :: "main_window \<Rightarrow> rat \<Rightarrow> string \<Rightarrow> main_window" where
  "on_progress mw percent message =
     (let mw1 = mw\<lparr>progress_bar := max 0 (min 100 (py_int percent))\<rparr>
      in case current_row mw of
           Some row \<Rightarrow>
             set_status (set_row_progress mw1 row (format_f 1 percent @ ''%''))
               (''Item '' @ str_nat (row + 1) @ '': '' @ message) ''active''
         | None \<Rightarrow> set_status mw1 message ''active'')"

definition on_log :: "main_window \<Rightarrow> string \<Rightarrow> main_window" where
  "on_log mw message =
     (let prefix = (case current_row mw of
                      Some row \<Rightarrow> ''[Item '' @ str_nat (row + 1) @ ''] ''
                    | None \<Rightarrow> [])
      in appendPlainText mw (prefix @ message))"

text \<open>\<open>on_item_finished\<close> (lines 993--1019).\<close>

definition on_item_finished :: "main_window \<Rightarrow> bool \<Rightarrow> string \<Rightarrow> main_window" where
  "on_item_finished mw success message =
     (case current_row mw of
        None \<Rightarrow> appendPlainText mw message
      | Some row \<Rightarrow>
          (let lowered = lower message;
               (row_status, state, progress_text, mw1) =
                 (if success then (''Done'', ''success'', ''100%'', mw)
                  else if sublist ''cancel'' lowered then
                    (''Canceled'', ''warning'',
                     (case item (queue_table mw) row COL_PROGRESS of
                        Some text \<Rightarrow> text
                      | None \<Rightarrow> ''0%''),
                     mw\<lparr>stop_queue_requested := True\<rparr>)
                  else (''Failed'', ''error'', ''0%'', mw));
               mw2 = set_row_status mw1 row row_status;
               mw3 = set_row_progress mw2 row progress_text;
               mw4 = set_status mw3 message state
           in appendPlainText mw4 (''[Item '' @ str_nat (row + 1) @ ''] '' @ message)))"

definition on_thread_finished :: "main_window \<Rightarrow> main_window" where
  "on_thread_finished mw =
     (let mw1 = mw\<lparr>worker := None, current_row := None\<rparr>
      in if queue_running mw1 then start_next_item mw1 else mw1)"

subsection \<open>Removing rows (lines 1029--1061)\<close>

text \<open>The selection is an input of \<open>remove_selected_items\<close>: the set of the rows of the
  selected indexes.\<close>

definition remove_selected_items :: "main_window \<Rightarrow> nat set \<Rightarrow> main_window" where
  "remove_selected_items mw selected =
     (if queue_running mw then
        show_message_box mw ''Queue Running'' ''Stop the queue before removing items.''
      else
        (let selected_rows = rev (sorted_list_of_set selected)
         in if selected_rows = [] then mw
            else
              set_status
                (mw\<lparr>queue_table := fold (\<lambda>row t. removeRow t row) selected_rows (queue_table mw)\<rparr>)
                (''Removed '' @ str_nat (length selected_rows) @ '' item(s).'') ''idle''))"

definition is_finished_status :: "string option \<Rightarrow> bool" where
  "is_finished_status st = (case st of
       None \<Rightarrow> False
     | Some text \<Rightarrow> text \<in> {''Done'', ''Failed'', ''Canceled''})"

definition clear_finished_items :: "main_window \<Rightarrow> main_window" where
  "clear_finished_items mw =
     (if queue_running mw then
        show_message_box mw ''Queue Running'' ''Stop the queue before clearing items.''
      else
        (let removable = filter (\<lambda>row. is_finished_status (item (queue_table mw) row COL_STATUS))
                           [0 ..< length (queue_table mw)];
             mw1 = mw\<lparr>queue_table := fold (\<lambda>row t. removeRow t row) (rev removable) (queue_table mw)\<rparr>
         in if removable \<noteq> [] then
              set_status mw1 (''Cleared '' @ str_nat (length removable) @ '' finished item(s).'')
                ''idle''
            else mw1))"


section \<open>Preset resolution\<close>

lemma map_of_presets_default:
  "map_of QUALITY_PRESETS ''Best (Video + Audio)'' =
     Some \<lparr>format = ''best'', merge_output_format = None, postprocessors = None\<rparr>"
  by (simp add: QUALITY_PRESETS_def)

text \<open>
  Claim C6.  Resolving a preset name raises nothing.  It yields the configuration stored
  under the name when the name is a key of the preset table, and the configuration of
  \<open>"Best (Video + Audio)"\<close> for every name that is not; resolving the default preset's
  own name gives that same configuration.
\<close>

theorem resolve_preset_fallback:
  "(\<forall>p. map_of QUALITY_PRESETS name = Some p \<longrightarrow> resolve_preset name = Inr p) \<and>
   (name \<notin> set preset_names \<longrightarrow>
      resolve_preset name =
        Inr \<lparr>format = ''best'', merge_output_format = None, postprocessors = None\<rparr>) \<and>
   resolve_preset ''Best (Video + Audio)'' =
     Inr \<lparr>format = ''best'', merge_output_format = None, postprocessors = None\<rparr>"
proof -
  have none: "map_of QUALITY_PRESETS name = None" if "name \<notin> set preset_names"
    using that by (simp add: preset_names_def map_of_eq_None_iff)
  show ?thesis
    using none
    by (auto simp: resolve_preset_def dict_getitem_def map_of_presets_default)
qed

theorem resolve_preset_fallback_witness:
  "resolve_preset ''720p (MP4)'' =
     Inr \<lparr>format = ''bestvideo[height<=720]+bestaudio/best[height<=720]/best'',
          merge_output_format = Some ''mp4'', postprocessors = None\<rparr> \<and>
   ''Potato'' \<notin> set preset_names \<and>
   resolve_preset ''Potato'' =
     Inr \<lparr>format = ''best'', merge_output_format = None, postprocessors = None\<rparr>"
proof -
  have a: "map_of QUALITY_PRESETS ''720p (MP4)'' =
     Some \<lparr>format = ''bestvideo[height<=720]+bestaudio/best[height<=720]/best'',
          merge_output_format = Some ''mp4'', postprocessors = None\<rparr>"
    by (simp add: QUALITY_PRESETS_def)
  have b: "''Potato'' \<notin> set preset_names"
    by (simp add: preset_names_def QUALITY_PRESETS_def)
  from resolve_preset_fallback [of "''720p (MP4)''"] a
       resolve_preset_fallback [of "''Potato''"] b
  show ?thesis by blast
qed


section \<open>The worker emits one \<open>finished\<close> signal\<close>

definition is_finished :: "signal \<Rightarrow> bool" where
  "is_finished s = (case s of Finished b m \<Rightarrow> True | _ \<Rightarrow> False)"

lemma progress_hook_no_finished:
  "progress_hook w data = Inr sigs \<Longrightarrow> \<forall>s\<in>set sigs. \<not> is_finished s"
  by (auto simp: progress_hook_def is_finished_def Let_def
      split: if_splits sum.splits bool.splits)

lemma play_script_no_finished:
  "play_script w es = (ss, w', r) \<Longrightarrow> \<forall>s\<in>set ss. \<not> is_finished s"
proof (induction w es arbitrary: ss w' r rule: play_script.induct)
  case (1 w)
  then show ?case by simp
next
  case (2 w es)
  then show ?case by simp
next
  case (3 w data es)
  show ?case
  proof (cases "progress_hook w data")
    case (Inl e)
    with 3 show ?thesis by simp
  next
    case (Inr sigs)
    obtain ss1 w1 r1 where p: "play_script w es = (ss1, w1, r1)"
      by (cases "play_script w es") auto
    from "3.prems" Inr p have ss: "ss = sigs @ ss1" by simp
    from "3.IH" [OF Inr p] progress_hook_no_finished [OF Inr] ss
    show ?thesis by auto
  qed
qed

lemma download_no_finished:
  "download w ydl = (ss, w', r) \<Longrightarrow> \<forall>s\<in>set ss. \<not> is_finished s"
proof -
  assume d: "download w ydl = (ss, w', r)"
  obtain ss1 w1 r1 where p: "play_script w (download_script ydl) = (ss1, w1, r1)"
    by (cases "play_script w (download_script ydl)") auto
  from d p have "ss = ss1" by (auto simp: download_def split: option.splits)
  with play_script_no_finished [OF p] show ?thesis by simp
qed

lemma with_body_no_finished:
  "with_body w ydl = (ss, w', r) \<Longrightarrow> \<forall>s\<in>set ss. \<not> is_finished s"
  by (auto simp: with_body_def is_finished_def split: sum.splits option.splits prod.splits
      dest!: download_no_finished)

lemma with_ydl_no_finished:
  "with_ydl w ydl = (ss, w', r) \<Longrightarrow> \<forall>s\<in>set ss. \<not> is_finished s"
  by (auto simp: with_ydl_def split: option.splits prod.splits dest!: with_body_no_finished)

lemma attempt_no_finished:
  "attempt w env = (ss, w', r) \<Longrightarrow> \<forall>s\<in>set ss. \<not> is_finished s"
  by (auto simp: attempt_def setup_log_def is_finished_def Let_def
      split: option.splits sum.splits prod.splits dest!: with_ydl_no_finished)

text \<open>
  Claim C2.  Whatever the file system and the extraction library do, \<open>run\<close> lets no
  exception out and emits exactly one \<open>finished\<close> signal, as its last signal.  With
  \<open>r\<close> the exception raised by lines 100--132 (if any) and \<open>w'\<close> the worker when they
  are left: nothing raised and the flag clear gives
  \<open>finished(True, "Download completed successfully.")\<close>; nothing raised, or a
  \<open>DownloadError\<close>, with the flag set gives \<open>finished(False, "Download canceled.")\<close>; a
  \<open>DownloadError\<close> with the flag clear gives \<open>"Download failed: "\<close> followed by its
  text; any other exception gives \<open>"Error: "\<close> followed by its text.
\<close>

theorem run_emits_one_finished:
  assumes "attempt w env = (ss, w', r)"
  shows "(r = None \<and> \<not> cancelled w' \<longrightarrow>
            run w env = (ss @ [Finished True ''Download completed successfully.''], w', None)) \<and>
         (r = None \<and> cancelled w' \<longrightarrow>
            run w env = (ss @ [Finished False ''Download canceled.''], w', None)) \<and>
         (\<forall>msg. r = Some (DownloadError msg) \<and> cancelled w' \<longrightarrow>
            run w env = (ss @ [Finished False ''Download canceled.''], w', None)) \<and>
         (\<forall>msg. r = Some (DownloadError msg) \<and> \<not> cancelled w' \<longrightarrow>
            run w env = (ss @ [Finished False (''Download failed: '' @ msg)], w', None)) \<and>
         (\<forall>msg. r = Some (PyException msg) \<longrightarrow>
            run w env = (ss @ [Finished False (''Error: '' @ msg)], w', None)) \<and>
         (\<forall>s\<in>set ss. \<not> is_finished s) \<and>
         length (filter is_finished (fst (run w env))) = 1 \<and>
         snd (snd (run w env)) = None"
proof -
  have nf: "\<forall>s\<in>set ss. \<not> is_finished s"
    using attempt_no_finished [OF assms] .
  then have f0: "filter is_finished ss = []" by (simp add: filter_empty_conv)
  have shape: "\<exists>b m. run w env = (ss @ [Finished b m], w', None)"
    using assms
    by (cases r) (auto simp: run_def try_body_def after_with_def split: exc.splits)
  then obtain b m where rn: "run w env = (ss @ [Finished b m], w', None)" by blast
  have one: "length (filter is_finished (fst (run w env))) = 1"
    by (simp add: rn f0 is_finished_def)
  have cases: "(r = None \<and> \<not> cancelled w' \<longrightarrow>
            run w env = (ss @ [Finished True ''Download completed successfully.''], w', None)) \<and>
         (r = None \<and> cancelled w' \<longrightarrow>
            run w env = (ss @ [Finished False ''Download canceled.''], w', None)) \<and>
         (\<forall>msg. r = Some (DownloadError msg) \<and> cancelled w' \<longrightarrow>
            run w env = (ss @ [Finished False ''Download canceled.''], w', None)) \<and>
         (\<forall>msg. r = Some (DownloadError msg) \<and> \<not> cancelled w' \<longrightarrow>
            run w env = (ss @ [Finished False (''Download failed: '' @ msg)], w', None)) \<and>
         (\<forall>msg. r = Some (PyException msg) \<longrightarrow>
            run w env = (ss @ [Finished False (''Error: '' @ msg)], w', None))"
    using assms by (auto simp: run_def try_body_def after_with_def)
  show ?thesis using cases nf one rn by simp
qed


text \<open>Sample inputs: a worker, a progress report at half of the transfer, and
  environments in which everything succeeds unless stated otherwise.\<close>

definition sample_worker :: download_worker where
  "sample_worker = DownloadWorker ''https://x.test/a'' ''/tmp/out'' [] ''720p (MP4)''"

definition half_way :: pydict where
  "half_way = [''status'' \<mapsto> PyStr ''downloading'', ''downloaded_bytes'' \<mapsto> PyInt 50,
               ''total_bytes'' \<mapsto> PyInt 100, ''speed'' \<mapsto> PyInt 1048576,
               ''eta'' \<mapsto> PyInt 5]"

definition sample_ydl :: "dl_event list \<Rightarrow> ydl_behaviour" where
  "sample_ydl script =
     \<lparr>init_raises = None, info_result = Inr (Some [''title'' \<mapsto> PyStr ''a/b'']),
      download_script = script, download_raises = None, close_raises = None\<rparr>"

definition sample_env :: "ydl_behaviour \<Rightarrow> environment" where
  "sample_env ydl = \<lparr>makedirs = (\<lambda>d. None), path_exists = (\<lambda>f. False),
                      YoutubeDL = (\<lambda>opts u. ydl)\<rparr>"

definition sample_log :: "signal list" where
  "sample_log = [Log ''Quality: 720p (MP4)'', Log ''Fetching video info...'',
                 Log ''Title: a_b'', Log ''Starting download...'',
                 Progress 50 ''50.0% | 1.00 MB/s | ETA: 5s'']"

theorem run_emits_one_finished_witness:
  "run sample_worker (sample_env (sample_ydl [HookCalled half_way])) =
     (sample_log @ [Finished True ''Download completed successfully.''], sample_worker, None) \<and>
   run sample_worker (sample_env (sample_ydl [HookCalled half_way, CancelCalled])) =
     (sample_log @ [Finished False ''Download canceled.''], cancel sample_worker, None) \<and>
   run sample_worker
       (sample_env (sample_ydl [HookCalled half_way, CancelCalled, HookCalled half_way])) =
     (sample_log @ [Finished False ''Download canceled.''], cancel sample_worker, None) \<and>
   run sample_worker
       (sample_env ((sample_ydl [])\<lparr>info_result := Inl (DownloadError ''Unsupported URL'')\<rparr>)) =
     ([Log ''Quality: 720p (MP4)'', Log ''Fetching video info...'',
       Finished False ''Download failed: Unsupported URL''], sample_worker, None) \<and>
   run sample_worker
       ((sample_env (sample_ydl []))\<lparr>makedirs := (\<lambda>d. Some (PyException ''Permission denied''))\<rparr>) =
     ([Finished False ''Error: Permission denied''], sample_worker, None)"
proof -
  have a1: "attempt sample_worker (sample_env (sample_ydl [HookCalled half_way])) =
      (sample_log, sample_worker, None)"
    by code_simp
  have c1: "\<not> cancelled sample_worker"
    by code_simp
  have a2: "attempt sample_worker (sample_env (sample_ydl [HookCalled half_way, CancelCalled])) =
      (sample_log, cancel sample_worker, None)"
    by code_simp
  have c2: "cancelled (cancel sample_worker)"
    by code_simp
  have a3: "attempt sample_worker
        (sample_env (sample_ydl [HookCalled half_way, CancelCalled, HookCalled half_way])) =
      (sample_log, cancel sample_worker, Some (DownloadError ''Download canceled by user.''))"
    by code_simp
  have a4: "attempt sample_worker
        (sample_env ((sample_ydl [])\<lparr>info_result := Inl (DownloadError ''Unsupported URL'')\<rparr>)) =
      ([Log ''Quality: 720p (MP4)'', Log ''Fetching video info...''], sample_worker,
       Some (DownloadError ''Unsupported URL''))"
    by code_simp
  have a5: "attempt sample_worker
        ((sample_env (sample_ydl []))\<lparr>makedirs := (\<lambda>d. Some (PyException ''Permission denied''))\<rparr>) =
      ([], sample_worker, Some (PyException ''Permission denied''))"
    by code_simp
  show ?thesis
    using run_emits_one_finished [OF a1] run_emits_one_finished [OF a2]
      run_emits_one_finished [OF a3] run_emits_one_finished [OF a4]
      run_emits_one_finished [OF a5] c1 c2
    by simp
qed


section \<open>Progress reports\<close>















section \<open>The progress message\<close>
















end
